theory Spec2Isabelle
  imports
    Complex_Main
    "HOL-Library.Sublist"
    "HOL-Library.Char_ord"
    "HOL-Library.List_Lexorder"
    "HOL-Library.Product_Lexorder"
    "HOL-Library.Multiset"
begin


section \<open>Python values and exceptions\<close>

text \<open>
  The operator library \<^verbatim>\<open>business_rules/operators.py\<close> is embedded shallowly. A raised
  exception is the left summand of a sum type; the message of the one exception the
  source raises with a fixed text is kept.
\<close>

datatype error =
    AssertionError
  | KeyError
  | TypeError
  | ValueError
  | Exception string
  | NotModelled

text \<open>
  The scalar operator types receive arbitrary Python objects. The objects that the
  scalar operators tell apart are \<^verbatim>\<open>None\<close>, booleans, integers, \<^verbatim>\<open>Decimal\<close>s, strings and
  lists. A \<^verbatim>\<open>Decimal\<close> is an exact rational number here: the finite precision of the
  decimal context (28 digits by default) is not modelled, and neither are floats, whose
  conversion \<^verbatim>\<open>float_to_decimal\<close> lives in another module.
\<close>

datatype pyval =
    PyNone
  | PyBool bool
  | PyInt int
  | PyDecimal rat
  | PyStr string
  | PyList "pyval list"

text \<open>Truthiness, as \<^verbatim>\<open>bool(x)\<close> computes it.\<close>

fun truthy :: "pyval \<Rightarrow> bool" where
  "truthy PyNone = False"
| "truthy (PyBool b) = b"
| "truthy (PyInt n) = (n \<noteq> 0)"
| "truthy (PyDecimal d) = (d \<noteq> 0)"
| "truthy (PyStr s) = (s \<noteq> [])"
| "truthy (PyList xs) = (xs \<noteq> [])"

text \<open>\<^verbatim>\<open>a or b\<close> is \<^verbatim>\<open>a\<close> when \<^verbatim>\<open>a\<close> is truthy and \<^verbatim>\<open>b\<close> otherwise.\<close>

definition py_or :: "pyval \<Rightarrow> pyval \<Rightarrow> pyval" where
  "py_or a b = (if truthy a then a else b)"

text \<open>
  \<^verbatim>\<open>isinstance(x, string_types)\<close>, \<^verbatim>\<open>isinstance(x, integer_types)\<close> (a Python \<^verbatim>\<open>bool\<close> is an
  \<^verbatim>\<open>int\<close>), \<^verbatim>\<open>isinstance(x, list)\<close> and \<^verbatim>\<open>hasattr(x, '__iter__')\<close>.
\<close>

fun is_string :: "pyval \<Rightarrow> bool" where
  "is_string (PyStr s) = True"
| "is_string v = False"




text \<open>
  The number a value stands for in a comparison: \<^verbatim>\<open>True == 1\<close>, \<^verbatim>\<open>Decimal(1) == 1\<close>.
\<close>

fun num_of :: "pyval \<Rightarrow> rat option" where
  "num_of (PyBool b) = Some (if b then 1 else 0)"
| "num_of (PyInt n) = Some (of_int n)"
| "num_of (PyDecimal d) = Some d"
| "num_of v = None"

text \<open>Python's \<^verbatim>\<open>==\<close> on these values.\<close>

fun py_eq :: "pyval \<Rightarrow> pyval \<Rightarrow> bool"
  and py_eq_list :: "pyval list \<Rightarrow> pyval list \<Rightarrow> bool" where
  "py_eq PyNone PyNone = True"
| "py_eq (PyStr a) (PyStr b) = (a = b)"
| "py_eq (PyList xs) (PyList ys) = py_eq_list xs ys"
| "py_eq a b = (case num_of a of None \<Rightarrow> False
      | Some x \<Rightarrow> (case num_of b of None \<Rightarrow> False | Some y \<Rightarrow> x = y))"
| "py_eq_list [] [] = True"
| "py_eq_list (x # xs) (y # ys) = (py_eq x y \<and> py_eq_list xs ys)"
| "py_eq_list xs ys = False"

text \<open>
  \<^verbatim>\<open>str.lower\<close>, on the ASCII letters (a \<^typ>\<open>char\<close> is a byte; the case mapping of
  other code points is not modelled).
\<close>

definition lower_char :: "char \<Rightarrow> char" where
  "lower_char c =
     (if (65::nat) \<le> of_char c \<and> of_char c \<le> (90::nat) then char_of (of_char c + (32::nat)) else c)"

definition lower :: "string \<Rightarrow> string" where
  "lower s = map lower_char s"

section \<open>The operator decorator\<close>

text \<open>
  \<^verbatim>\<open>type_operator\<close> wraps a method so that, when \<^verbatim>\<open>assert_type_for_arguments\<close> is set,
  the argument goes through the owning type's \<^verbatim>\<open>_assert_valid_value_and_cast\<close> before the
  body runs. An instance of a scalar type is its attribute \<^verbatim>\<open>self.value\<close>.
\<close>

definition type_operator ::
  "(pyval \<Rightarrow> error + 'a) \<Rightarrow> ('s \<Rightarrow> 'a \<Rightarrow> error + 'r) \<Rightarrow> 's \<Rightarrow> pyval \<Rightarrow> error + 'r" where
  "type_operator cast func self arg =
     (case cast arg of Inl e \<Rightarrow> Inl e | Inr a \<Rightarrow> func self a)"


section \<open>StringType\<close>

definition StringType_assert_valid_value_and_cast :: "pyval \<Rightarrow> error + string" where
  "StringType_assert_valid_value_and_cast v =
     (case py_or v (PyStr '''') of
        PyStr s \<Rightarrow> Inr s
      | _ \<Rightarrow> Inl AssertionError)"

text \<open>\<^verbatim>\<open>BaseType.__init__\<close>: the instance stores the cast value.\<close>

definition StringType :: "pyval \<Rightarrow> error + string" where
  "StringType v = StringType_assert_valid_value_and_cast v"

definition StringType_equal_to :: "string \<Rightarrow> pyval \<Rightarrow> error + bool" where
  "StringType_equal_to =
     type_operator StringType_assert_valid_value_and_cast (\<lambda>self other_string. Inr (self = other_string))"


definition StringType_equal_to_case_insensitive :: "string \<Rightarrow> pyval \<Rightarrow> error + bool" where
  "StringType_equal_to_case_insensitive =
     type_operator StringType_assert_valid_value_and_cast
       (\<lambda>self other_string. Inr (lower self = lower other_string))"

definition StringType_starts_with :: "string \<Rightarrow> pyval \<Rightarrow> error + bool" where
  "StringType_starts_with =
     type_operator StringType_assert_valid_value_and_cast
       (\<lambda>self other_string. Inr (prefix other_string self))"

definition StringType_ends_with :: "string \<Rightarrow> pyval \<Rightarrow> error + bool" where
  "StringType_ends_with =
     type_operator StringType_assert_valid_value_and_cast
       (\<lambda>self other_string. Inr (suffix other_string self))"

definition StringType_contains :: "string \<Rightarrow> pyval \<Rightarrow> error + bool" where
  "StringType_contains =
     type_operator StringType_assert_valid_value_and_cast
       (\<lambda>self other_string. Inr (sublist other_string self))"

definition StringType_non_empty :: "string \<Rightarrow> bool" where
  "StringType_non_empty self = (self \<noteq> [])"

section \<open>NumericType\<close>


definition NumericType_assert_valid_value_and_cast :: "pyval \<Rightarrow> error + rat" where
  "NumericType_assert_valid_value_and_cast v =
     (case v of
        PyBool b \<Rightarrow> Inr (if b then 1 else 0)
      | PyInt n \<Rightarrow> Inr (of_int n)
      | PyDecimal d \<Rightarrow> Inr d
      | _ \<Rightarrow> Inl AssertionError)"

definition NumericType :: "pyval \<Rightarrow> error + rat" where
  "NumericType v = NumericType_assert_valid_value_and_cast v"








section \<open>SelectType and SelectMultipleType\<close>





















section \<open>BooleanType\<close>

definition BooleanType_assert_valid_value_and_cast :: "pyval \<Rightarrow> error + bool" where
  "BooleanType_assert_valid_value_and_cast v =
     (case v of PyBool b \<Rightarrow> Inr b | _ \<Rightarrow> Inl AssertionError)"

definition BooleanType_is_true :: "bool \<Rightarrow> bool" where
  "BooleanType_is_true self = self"

definition BooleanType_is_false :: "bool \<Rightarrow> bool" where
  "BooleanType_is_false self = (\<not> self)"

section \<open>GenericType\<close>














section \<open>Tables\<close>

text \<open>
  A cell of a table is missing (\<^verbatim>\<open>None\<close> in a column of objects), a number or a string.
  Numbers are integers; a Python boolean is the number 1 or 0, as \<^verbatim>\<open>True == 1\<close> and
  \<^verbatim>\<open>hash(True) == hash(1)\<close> make it for every comparison, membership test and grouping
  below. Floats (and so \<^verbatim>\<open>NaN\<close> as distinct from \<^verbatim>\<open>None\<close>), lists and sets as cells are not
  modelled.

  A table is its list of column names and its list of rows, a row giving the cell of
  every column: the row count is the same for every column by construction. Rows are
  addressed by position (the default \<^verbatim>\<open>RangeIndex\<close>).

  \<^term>\<open>NotModelled\<close> is no exception of Python: it marks the few places where pandas
  leaves this model (a comparison against a sub-frame, \<^verbatim>\<open>GroupBy.apply\<close> over no group at
  all, a grouping key named twice). The model says nothing about what pandas does
  there, and no theorem below concludes anything from this value.
\<close>

datatype cell = Missing | Num int | Str string

type_synonym row = "string \<Rightarrow> cell"

record frame =
  columns :: "string list"
  rows :: "row list"

text \<open>\<^verbatim>\<open>df[key]\<close> for one key: the column, or \<^verbatim>\<open>KeyError\<close>.\<close>

definition getitem :: "frame \<Rightarrow> cell \<Rightarrow> error + cell list" where
  "getitem df key =
     (case key of
        Str c \<Rightarrow> if c \<in> set (columns df) then Inr (map (\<lambda>r. r c) (rows df)) else Inl KeyError
      | _ \<Rightarrow> Inl KeyError)"


text \<open>
  The order pandas sorts cells in: numbers before strings, missing cells last
  (\<^verbatim>\<open>na_position='last'\<close>; group keys of mixed kinds are sorted numbers first).
\<close>

definition cell_key :: "cell \<Rightarrow> nat \<times> int \<times> string" where
  "cell_key c = (case c of Num n \<Rightarrow> (0, n, '''') | Str s \<Rightarrow> (1, 0, s) | Missing \<Rightarrow> (2, 0, ''''))"

fun is_Num :: "cell \<Rightarrow> bool" where
  "is_Num (Num n) = True"
| "is_Num c = False"

fun is_Str :: "cell \<Rightarrow> bool" where
  "is_Str (Str s) = True"
| "is_Str c = False"

text \<open>
  Python orders numbers with numbers and strings with strings; \<^verbatim>\<open><\<close> between a number and
  a string, or with \<^verbatim>\<open>None\<close> on either side, raises \<^verbatim>\<open>TypeError\<close>. A sort of two or more items
  compares every item with some other one, and compares some number with some string
  when both kinds are present; a sort of fewer items compares nothing.
\<close>

definition comparable :: "cell list \<Rightarrow> bool" where
  "comparable xs = (list_all is_Num xs \<or> list_all is_Str xs)"

definition py_sorted :: "cell list \<Rightarrow> error + cell list" where
  "py_sorted xs =
     (if length xs \<le> 1 \<or> comparable xs then Inr (sort_key cell_key xs) else Inl TypeError)"




text \<open>
  \<^verbatim>\<open>df.groupby(by)\<close> for one key: the groups in ascending order of their keys, each with its
  rows in the order of the table; rows whose key is missing belong to no group
  (\<^verbatim>\<open>dropna=True\<close>). \<^verbatim>\<open>groupby(None)\<close> is a \<^verbatim>\<open>TypeError\<close>.
\<close>

definition group_keys :: "cell list \<Rightarrow> cell list" where
  "group_keys ks = sort_key cell_key (remdups (filter (\<lambda>k. k \<noteq> Missing) ks))"

definition groups_of :: "('a \<Rightarrow> cell) \<Rightarrow> 'a list \<Rightarrow> 'a list list" where
  "groups_of key xs = map (\<lambda>k. filter (\<lambda>x. key x = k) xs) (group_keys (map key xs))"

definition groupby :: "frame \<Rightarrow> cell \<Rightarrow> error + frame list" where
  "groupby df by_column =
     (case by_column of
        Missing \<Rightarrow> Inl TypeError
      | Num n \<Rightarrow> Inl KeyError
      | Str c \<Rightarrow>
          if c \<in> set (columns df)
          then Inr (map (\<lambda>g. df\<lparr>rows := g\<rparr>) (groups_of (\<lambda>r. r c) (rows df)))
          else Inl KeyError)"

text \<open>Running a function over the groups: the first exception ends the run.\<close>

fun map_err :: "('a \<Rightarrow> error + 'b) \<Rightarrow> 'a list \<Rightarrow> error + 'b list" where
  "map_err f [] = Inr []"
| "map_err f (x # xs) =
     (case f x of
        Inl e \<Rightarrow> Inl e
      | Inr y \<Rightarrow> (case map_err f xs of Inl e \<Rightarrow> Inl e | Inr ys \<Rightarrow> Inr (y # ys)))"

text \<open>\<^verbatim>\<open>ser.eq(other)\<close> on one cell: a missing cell on either side compares false.\<close>

definition cell_eq :: "cell \<Rightarrow> cell \<Rightarrow> bool" where
  "cell_eq a b = (a \<noteq> Missing \<and> b \<noteq> Missing \<and> a = b)"

text \<open>\<^verbatim>\<open>x in ["", None]\<close>, \<^verbatim>\<open>ser.isin(["", None])\<close>.\<close>

definition is_empty_cell :: "cell \<Rightarrow> bool" where
  "is_empty_cell c = (c = Str '''' \<or> c = Missing)"



section \<open>DataframeType: the bundle and the arguments of an operator\<close>

text \<open>
  The instance keeps the table (\<^verbatim>\<open>self.value\<close>) and the prefix map; the other attributes
  (\<^verbatim>\<open>relationship_data\<close>, \<^verbatim>\<open>value_level_metadata\<close>, \<^verbatim>\<open>column_codelist_map\<close>,
  \<^verbatim>\<open>codelist_term_maps\<close>) are read by none of the operators below. The prefix map is a
  dictionary, iterated in insertion order.
\<close>

record DataframeType =
  df_value :: frame
  column_prefix_map :: "(string \<times> string) list"

text \<open>
  The argument of an operator is a dictionary, read with \<^verbatim>\<open>other_value.get(k)\<close>, which is
  \<^verbatim>\<open>None\<close> (\<^term>\<open>Missing\<close>) for an absent key. A comparator is one value (a column name or a
  literal) or a list. The decorator's cast of this dictionary
  (\<^verbatim>\<open>DataframeType._assert_valid_value_and_cast\<close>) accepts every dictionary and returns it.
\<close>

datatype comparator = Scalar cell | ListOf "cell list"

record other_value =
  get_target :: cell
  get_comparator :: comparator
  get_value_is_literal :: bool
  get_within :: cell
  get_ordering :: cell

text \<open>
  \<^verbatim>\<open>value.replace(prefix, replacement, 1)\<close> where \<^verbatim>\<open>value.startswith(prefix)\<close>: the first
  occurrence of the prefix is the one at the start.
\<close>

fun replace_prefix_str :: "(string \<times> string) list \<Rightarrow> string \<Rightarrow> string" where
  "replace_prefix_str [] v = v"
| "replace_prefix_str ((p, replacement) # m) v =
     (if prefix p v then replacement @ drop (length p) v else replace_prefix_str m v)"

definition replace_prefix :: "DataframeType \<Rightarrow> cell \<Rightarrow> cell" where
  "replace_prefix self v =
     (case v of Str s \<Rightarrow> Str (replace_prefix_str (column_prefix_map self) s) | _ \<Rightarrow> v)"

text \<open>\<^verbatim>\<open>replace_prefix\<close> on a comparator: a list is not a string and is returned as it is.\<close>

definition replace_prefix_comparator :: "DataframeType \<Rightarrow> comparator \<Rightarrow> comparator" where
  "replace_prefix_comparator self c =
     (case c of Scalar v \<Rightarrow> Scalar (replace_prefix self v) | ListOf vs \<Rightarrow> ListOf vs)"


text \<open>
  \<^verbatim>\<open>self.value.get(key, default)\<close> is \<^verbatim>\<open>self.value[key]\<close> unless that raises \<^verbatim>\<open>KeyError\<close>.
  For one key \<^verbatim>\<open>self.value[key]\<close> is the column of that name; for a list of keys it is the
  sub-frame of the columns named, and a \<^verbatim>\<open>KeyError\<close> when one of them names no column.
  The column names are strings. A list of booleans as long as the table, which pandas
  reads as a mask of rows, is not modelled: a number in a list of keys is an integer.
\<close>

datatype comparison_data =
    Literal comparator
  | ColumnData "cell list"
  | FrameData "(string \<times> cell list) list"

fun is_column :: "frame \<Rightarrow> cell \<Rightarrow> bool" where
  "is_column df (Str c) = (c \<in> set (columns df))"
| "is_column df k = False"

fun name_of :: "cell \<Rightarrow> string" where
  "name_of (Str c) = c"
| "name_of k = ''''"

definition frame_get :: "frame \<Rightarrow> comparator \<Rightarrow> comparator \<Rightarrow> comparison_data" where
  "frame_get df key fallback =
     (case key of
        Scalar k \<Rightarrow> (case getitem df k of Inr xs \<Rightarrow> ColumnData xs | Inl e \<Rightarrow> Literal fallback)
      | ListOf ks \<Rightarrow>
          if list_all (is_column df) ks
          then FrameData (map (\<lambda>k. (name_of k, map (\<lambda>r. r (name_of k)) (rows df))) ks)
          else Literal fallback)"

definition get_comparator_data :: "DataframeType \<Rightarrow> comparator \<Rightarrow> bool \<Rightarrow> comparison_data" where
  "get_comparator_data self comparator value_is_literal =
     (if value_is_literal then Literal comparator
      else frame_get (df_value self) comparator comparator)"


section \<open>DataframeType: the operators\<close>



text \<open>
  What \<^verbatim>\<open>ser.eq(comparison_data)\<close> compares the rows of a column of \<open>n\<close> cells with: a
  literal is broadcast, a list must have one item per row (\<^verbatim>\<open>ValueError\<close>: lengths must be
  equal), a column of the same table is aligned by position.
\<close>

definition row_values :: "comparison_data \<Rightarrow> nat \<Rightarrow> error + cell list" where
  "row_values comparison_data n =
     (case comparison_data of
        Literal (Scalar v) \<Rightarrow> Inr (replicate n v)
      | Literal (ListOf vs) \<Rightarrow> if length vs = n then Inr vs else Inl ValueError
      | ColumnData xs \<Rightarrow> Inr xs
      | FrameData cols \<Rightarrow> Inl NotModelled)"

definition DataframeType_equal_to :: "DataframeType \<Rightarrow> other_value \<Rightarrow> error + bool list" where
  "DataframeType_equal_to self other_value =
     (let target = replace_prefix self (get_target other_value);
          value_is_literal = get_value_is_literal other_value;
          comparator = (if \<not> value_is_literal
                        then replace_prefix_comparator self (get_comparator other_value)
                        else get_comparator other_value);
          comparison_data = get_comparator_data self comparator value_is_literal
      in case getitem (df_value self) target of
           Inl e \<Rightarrow> Inl e
         | Inr target_column \<Rightarrow>
             (case row_values comparison_data (length target_column) of
                Inl e \<Rightarrow> Inl e
              | Inr compared \<Rightarrow>
                  Inr (map2 (\<lambda>t v. cell_eq t v \<and> \<not> is_empty_cell t) target_column compared)))"












text \<open>
  \<^verbatim>\<open>self.value.groupby(value).agg(lambda x : list(x))[target].map(lambda x: sorted(x) == x).tolist()\<close>,
  the expression both ordered-set operators evaluate: the aggregated table has the
  columns other than the grouping one.
\<close>

definition sorted_groups :: "frame \<Rightarrow> cell \<Rightarrow> cell \<Rightarrow> error + bool list" where
  "sorted_groups df by_column target =
     (case groupby df by_column of
        Inl e \<Rightarrow> Inl e
      | Inr grouped \<Rightarrow>
          if \<not> is_column df target \<or> target = by_column then Inl KeyError
          else map_err
                 (\<lambda>g. let x = map (\<lambda>r. r (name_of target)) (rows g)
                      in case py_sorted x of Inl e \<Rightarrow> Inl e | Inr s \<Rightarrow> Inr (s = x))
                 grouped)"

definition DataframeType_is_ordered_set :: "DataframeType \<Rightarrow> other_value \<Rightarrow> error + bool" where
  "DataframeType_is_ordered_set self other_value =
     (let target = replace_prefix self (get_target other_value)
      in case get_comparator other_value of
           ListOf vs \<Rightarrow> Inl (Exception ''Comparator must be a single String value'')
         | Scalar v \<Rightarrow>
             (case sorted_groups (df_value self) v target of
                Inl e \<Rightarrow> Inl e
              | Inr flags \<Rightarrow> Inr (\<not> (False \<in> set flags))))"

definition DataframeType_is_not_ordered_set :: "DataframeType \<Rightarrow> other_value \<Rightarrow> error + bool" where
  "DataframeType_is_not_ordered_set self other_value =
     (let target = replace_prefix self (get_target other_value)
      in case get_comparator other_value of
           ListOf vs \<Rightarrow> Inl (Exception ''Comparator must be a single String value'')
         | Scalar v \<Rightarrow>
             (case sorted_groups (df_value self) v target of
                Inl e \<Rightarrow> Inl e
              | Inr flags \<Rightarrow> Inr (False \<in> set flags)))"

text \<open>
  \<^verbatim>\<open>grouped.apply(f)\<close> where \<^verbatim>\<open>f\<close> returns a list, followed by \<^verbatim>\<open>.explode().tolist()\<close>: the lists
  of the groups, one after the other in the order of the groups. None of the lists
  below is empty (an empty list would explode to one missing value).
\<close>

definition apply_groups :: "(frame \<Rightarrow> error + 'a list) \<Rightarrow> frame list \<Rightarrow> error + 'a list list" where
  "apply_groups f grouped = (if grouped = [] then Inl NotModelled else map_err f grouped)"




text \<open>
  \<^verbatim>\<open>min_count = other_value.get("comparator") or 1\<close>: an absent, zero or empty comparator is
  replaced by 1. \<^verbatim>\<open>len(ser) > min_length\<close> raises \<^verbatim>\<open>TypeError\<close> unless \<^verbatim>\<open>min_length\<close> is a
  number; \<^verbatim>\<open>[False] * n\<close> is the empty list for a negative \<open>n\<close>.
\<close>

fun comparator_truthy :: "comparator \<Rightarrow> bool" where
  "comparator_truthy (Scalar Missing) = False"
| "comparator_truthy (Scalar (Num n)) = (n \<noteq> 0)"
| "comparator_truthy (Scalar (Str s)) = (s \<noteq> [])"
| "comparator_truthy (ListOf vs) = (vs \<noteq> [])"

definition validate_series_length :: "cell list \<Rightarrow> comparator \<Rightarrow> error + bool list" where
  "validate_series_length ser min_length =
     (case min_length of
        Scalar (Num n) \<Rightarrow>
          if int (length ser) > n then Inr (replicate (length ser) True)
          else Inr (replicate (nat n) False)
      | _ \<Rightarrow> Inl TypeError)"

definition DataframeType_present_on_multiple_rows_within ::
  "DataframeType \<Rightarrow> other_value \<Rightarrow> error + bool list" where
  "DataframeType_present_on_multiple_rows_within self other_value =
     (let target = replace_prefix self (get_target other_value);
          min_count = (if comparator_truthy (get_comparator other_value)
                       then get_comparator other_value else Scalar (Num 1));
          group_by_column = replace_prefix self (get_within other_value)
      in case groupby (df_value self) group_by_column of
           Inl e \<Rightarrow> Inl e
         | Inr grouped \<Rightarrow>
             (case apply_groups
                     (\<lambda>x. case getitem x target of
                            Inl e \<Rightarrow> Inl e
                          | Inr ser \<Rightarrow> validate_series_length ser min_count)
                     grouped of
                Inl e \<Rightarrow> Inl e
              | Inr results \<Rightarrow> Inr (concat results)))"






section \<open>Building tables\<close>

text \<open>
  \<^verbatim>\<open>pandas.DataFrame.from_dict({"A": [...], "B": [...]})\<close>, for columns of one length: the
  table of the examples below.
\<close>

definition from_dict :: "(string \<times> cell list) list \<Rightarrow> frame" where
  "from_dict d =
     \<lparr> columns = map fst d,
       rows = map (\<lambda>i c. case map_of d c of
                            None \<Rightarrow> Missing
                          | Some xs \<Rightarrow> if i < length xs then xs ! i else Missing)
                 [0 ..< (case d of [] \<Rightarrow> 0 | (c, xs) # rest \<Rightarrow> length xs)] \<rparr>"

definition bundle_of :: "(string \<times> cell list) list \<Rightarrow> DataframeType" where
  "bundle_of d = \<lparr> df_value = from_dict d, column_prefix_map = [] \<rparr>"

definition args :: "string \<Rightarrow> comparator \<Rightarrow> other_value" where
  "args t c = \<lparr> get_target = Str t, get_comparator = c, get_value_is_literal = False,
                 get_within = Missing, get_ordering = Missing \<rparr>"


section \<open>The specification's notions\<close>




text \<open>Is the comparator a list; did the operator raise the exception with a message.\<close>

fun is_ListOf :: "comparator \<Rightarrow> bool" where
  "is_ListOf (ListOf vs) = True"
| "is_ListOf (Scalar v) = False"

fun raises_Exception :: "error + 'a \<Rightarrow> bool" where
  "raises_Exception (Inl (Exception m)) = True"
| "raises_Exception r = False"



section \<open>Auxiliary facts\<close>

subsection \<open>Negated operators\<close>











subsection \<open>Columns\<close>

lemma getitem_length: "getitem df k = Inr xs \<Longrightarrow> length xs = length (rows df)"
  by (auto simp: getitem_def split: cell.splits if_splits)

lemma getitem_Str:
  "c \<in> set (columns df) \<Longrightarrow> getitem df (Str c) = Inr (map (\<lambda>r. r c) (rows df))"
  by (simp add: getitem_def)

lemma getitem_is_column: "getitem df k = Inr xs \<Longrightarrow> is_column df k"
  by (cases k) (auto simp: getitem_def split: if_splits)

lemma is_column_Str: "is_column df k \<Longrightarrow> k = Str (name_of k) \<and> name_of k \<in> set (columns df)"
  by (cases k) simp_all

lemma row_values_length:
  "row_values cd n = Inr compared \<Longrightarrow>
   (case cd of ColumnData xs \<Rightarrow> length xs = n | _ \<Rightarrow> True) \<Longrightarrow> length compared = n"
  by (auto simp: row_values_def split: comparison_data.splits comparator.splits if_splits)

lemma frame_get_column_length:
  "frame_get df key d = ColumnData xs \<Longrightarrow> length xs = length (rows df)"
  by (auto simp: frame_get_def getitem_length split: comparator.splits sum.splits if_splits)

lemma get_comparator_data_column_length:
  "get_comparator_data self c lit = ColumnData xs \<Longrightarrow> length xs = length (rows (df_value self))"
  by (auto simp: get_comparator_data_def frame_get_column_length split: if_splits)

lemma cell_eq_guarded:
  "(cell_eq t v \<and> \<not> is_empty_cell t) = (if t = Str '''' \<or> t = Missing then False else t = v)"
  by (auto simp: cell_eq_def is_empty_cell_def)


subsection \<open>setitem\<close>









subsection \<open>is_ordered_by\<close>





lemma comparable_filter: "comparable xs \<Longrightarrow> comparable (filter P xs)"
  by (auto simp: comparable_def list_all_iff)


lemma map2_cell_eq_Missing:
  "i < length (map2 cell_eq xs ys) \<Longrightarrow> xs ! i = Missing \<Longrightarrow> \<not> map2 cell_eq xs ys ! i"
  by (simp add: cell_eq_def)



subsection \<open>is_ordered_set\<close>

lemma map_err_Inl: "map_err f xs = Inl e \<Longrightarrow> \<exists>x\<in>set xs. f x = Inl e"
  by (induction xs) (auto split: sum.splits)

lemma map_err_Inr: "(\<And>x. x \<in> set xs \<Longrightarrow> f x = Inr (g x)) \<Longrightarrow> map_err f xs = Inr (map g xs)"
  by (induction xs) simp_all

lemma py_sorted_error: "py_sorted xs = Inl e \<Longrightarrow> e = TypeError"
  by (auto simp: py_sorted_def split: if_splits)

lemma groupby_error: "groupby df k = Inl e \<Longrightarrow> e = TypeError \<or> e = KeyError"
  by (auto simp: groupby_def split: cell.splits if_splits)

lemma sorted_groups_error: "sorted_groups df k t = Inl e \<Longrightarrow> e = TypeError \<or> e = KeyError"
  unfolding sorted_groups_def
  by (auto simp: Let_def split: sum.splits if_splits dest!: map_err_Inl groupby_error py_sorted_error)

lemma ordered_set_raises:
  "raises_Exception (DataframeType_is_ordered_set self ov) \<longleftrightarrow> is_ListOf (get_comparator ov)"
  by (auto simp: DataframeType_is_ordered_set_def Let_def
      split: comparator.splits sum.splits dest!: sorted_groups_error)

lemma not_ordered_set_raises:
  "raises_Exception (DataframeType_is_not_ordered_set self ov) \<longleftrightarrow> is_ListOf (get_comparator ov)"
  by (auto simp: DataframeType_is_not_ordered_set_def Let_def
      split: comparator.splits sum.splits dest!: sorted_groups_error)

lemma sorted_groups_returns:
  assumes k: "k \<in> set (columns df)" and t: "getitem df t = Inr col" and ne: "t \<noteq> Str k"
    and cmp: "comparable col"
  shows "sorted_groups df (Str k) t
    = Inr (map (\<lambda>g. sort_key cell_key (map (\<lambda>r. r (name_of t)) (rows g)) = map (\<lambda>r. r (name_of t)) (rows g))
            (map (\<lambda>g. df\<lparr>rows := g\<rparr>) (groups_of (\<lambda>r. r k) (rows df))))"
proof -
  have ic: "is_column df t" using t by (rule getitem_is_column)
  then have tn: "t = Str (name_of t)" "name_of t \<in> set (columns df)"
    using is_column_Str by auto
  have col: "col = map (\<lambda>r. r (name_of t)) (rows df)"
    using t tn getitem_Str [of "name_of t" df] by simp
  have g: "groupby df (Str k) = Inr (map (\<lambda>g. df\<lparr>rows := g\<rparr>) (groups_of (\<lambda>r. r k) (rows df)))"
    using k by (simp add: groupby_def)
  have each: "(let x = map (\<lambda>r. r (name_of t)) (rows g)
               in case py_sorted x of Inl e \<Rightarrow> Inl e | Inr s \<Rightarrow> Inr (s = x))
            = Inr (sort_key cell_key (map (\<lambda>r. r (name_of t)) (rows g)) = map (\<lambda>r. r (name_of t)) (rows g))"
    if "g \<in> set (map (\<lambda>g. df\<lparr>rows := g\<rparr>) (groups_of (\<lambda>r. r k) (rows df)))" for g
  proof -
    from that obtain key where "rows g = filter (\<lambda>x. x k = key) (rows df)"
      by (auto simp: groups_of_def)
    then have "map (\<lambda>r. r (name_of t)) (rows g)
        = map snd (filter (\<lambda>p. fst p k = key) (map (\<lambda>r. (r, r (name_of t))) (rows df)))"
      by (simp add: filter_map comp_def)
    moreover have "list_all P (map (\<lambda>r. r (name_of t)) (rows df))
        \<Longrightarrow> list_all P (map snd (filter (\<lambda>p. fst p k = key) (map (\<lambda>r. (r, r (name_of t))) (rows df))))" for P
      by (auto simp: list_all_iff)
    ultimately have "comparable (map (\<lambda>r. r (name_of t)) (rows g))"
      using cmp col by (auto simp: comparable_def)
    then show ?thesis
      by (simp add: py_sorted_def Let_def)
  qed
  have m: "map_err
         (\<lambda>g. let x = map (\<lambda>r. r (name_of t)) (rows g)
              in case py_sorted x of Inl e \<Rightarrow> Inl e | Inr s \<Rightarrow> Inr (s = x))
         (map (\<lambda>g. df\<lparr>rows := g\<rparr>) (groups_of (\<lambda>r. r k) (rows df)))
      = Inr (map (\<lambda>g. sort_key cell_key (map (\<lambda>r. r (name_of t)) (rows g)) = map (\<lambda>r. r (name_of t)) (rows g))
               (map (\<lambda>g. df\<lparr>rows := g\<rparr>) (groups_of (\<lambda>r. r k) (rows df))))"
    by (rule map_err_Inr) (rule each)
  show ?thesis
    unfolding sorted_groups_def g using ic ne by (simp only: m sum.case simp_thms if_False)
qed




subsection \<open>Groups\<close>














subsection \<open>One group\<close>





subsection \<open>The operator\<close>




subsection \<open>The bundle after a call\<close>







section \<open>Scalar types\<close>

text \<open>
  Claim C10. \<^verbatim>\<open>StringType._assert_valid_value_and_cast\<close> maps every falsy input to the empty
  string: \<^verbatim>\<open>None\<close>, \<^verbatim>\<open>0\<close>, \<^verbatim>\<open>False\<close>, \<^verbatim>\<open>Decimal(0)\<close>, the empty string and the empty list.
  It raises \<^verbatim>\<open>AssertionError\<close> exactly for the truthy inputs that are not strings, and
  returns a truthy string as it is. So \<^verbatim>\<open>StringType(0)\<close> and \<^verbatim>\<open>StringType(False)\<close> are
  the instance \<^verbatim>\<open>StringType("")\<close>.
\<close>

theorem StringType_cast_falsy:
  "(\<not> truthy v \<longrightarrow> StringType_assert_valid_value_and_cast v = Inr '''')
   \<and> (StringType_assert_valid_value_and_cast v = Inl AssertionError \<longleftrightarrow> truthy v \<and> \<not> is_string v)
   \<and> (truthy v \<and> is_string v \<longrightarrow> map_sum id PyStr (StringType_assert_valid_value_and_cast v) = Inr v)
   \<and> StringType PyNone = StringType (PyStr '''')
   \<and> StringType (PyInt 0) = StringType (PyStr '''')
   \<and> StringType (PyBool False) = StringType (PyStr '''')
   \<and> StringType (PyDecimal 0) = StringType (PyStr '''')
   \<and> StringType (PyList []) = StringType (PyStr '''')
   \<and> StringType (PyStr '''') = Inr ''''"
  by (cases v) (auto simp: StringType_assert_valid_value_and_cast_def py_or_def StringType_def)

theorem StringType_cast_falsy_witness:
  "StringType_assert_valid_value_and_cast (PyInt 0) = Inr ''''
   \<and> StringType_assert_valid_value_and_cast (PyInt 7) = Inl AssertionError
   \<and> StringType_assert_valid_value_and_cast (PyStr ''MILD'') = Inr ''MILD''
   \<and> StringType_equal_to (projr (StringType (PyBool False))) (PyStr '''') = Inr True"
proof -
  have e: "StringType_assert_valid_value_and_cast (PyStr ''MILD'') = Inr ''MILD''"
    "StringType_equal_to '''' (PyStr '''') = Inr True"
    by code_simp+
  show ?thesis
    using StringType_cast_falsy [of "PyInt 0"] StringType_cast_falsy [of "PyInt 7"] e
    by simp
qed



section \<open>Complementary operators\<close>



section \<open>DataframeType\<close>

text \<open>
  Claim C3. \<^verbatim>\<open>DataframeType.equal_to\<close>, where the target names a column and the comparison
  data gives one value per row (a literal, a column, or a literal list with one item per
  row): the result has one boolean per row; it is false in every row whose target cell
  is the empty string or missing, whatever the comparison value of that row, and in
  every other row it tells whether the target cell equals the comparison value.
\<close>

theorem equal_to_rows:
  assumes t: "getitem (df_value self) (replace_prefix self (get_target ov)) = Inr target_column"
    and c: "row_values
              (get_comparator_data self
                 (if get_value_is_literal ov then get_comparator ov
                  else replace_prefix_comparator self (get_comparator ov))
                 (get_value_is_literal ov))
              (length target_column) = Inr compared"
  shows "\<exists>result. DataframeType_equal_to self ov = Inr result
           \<and> length result = length (rows (df_value self))
           \<and> length target_column = length result \<and> length compared = length result
           \<and> (\<forall>i < length result.
                 result ! i = (if target_column ! i = Str '''' \<or> target_column ! i = Missing then False
                               else target_column ! i = compared ! i))"
proof -
  let ?cd = "get_comparator_data self
                 (if get_value_is_literal ov then get_comparator ov
                  else replace_prefix_comparator self (get_comparator ov))
                 (get_value_is_literal ov)"
  have n: "length target_column = length (rows (df_value self))"
    using t by (rule getitem_length)
  have "case ?cd of ColumnData xs \<Rightarrow> length xs = length target_column | _ \<Rightarrow> True"
    using get_comparator_data_column_length [of self] n by (auto split: comparison_data.splits)
  with c have m: "length compared = length target_column"
    by (rule row_values_length)
  have r: "DataframeType_equal_to self ov
        = Inr (map2 (\<lambda>t v. cell_eq t v \<and> \<not> is_empty_cell t) target_column compared)"
    using t c by (cases "get_value_is_literal ov") (simp_all add: DataframeType_equal_to_def Let_def)
  show ?thesis
    unfolding r using n m by (simp add: cell_eq_guarded)
qed

theorem equal_to_rows_witness:
  "DataframeType_equal_to
     (bundle_of [(''t'', [Missing, Str '''', Str ''a'', Str ''b'']),
                 (''c'', [Missing, Str '''', Str ''a'', Str ''x''])])
     (args ''t'' (Scalar (Str ''c''))) = Inr [False, False, True, False]"
proof -
  let ?b = "bundle_of [(''t'', [Missing, Str '''', Str ''a'', Str ''b'']),
                       (''c'', [Missing, Str '''', Str ''a'', Str ''x''])]"
  let ?ov = "args ''t'' (Scalar (Str ''c''))"
  have t: "getitem (df_value ?b) (replace_prefix ?b (get_target ?ov))
             = Inr [Missing, Str '''', Str ''a'', Str ''b'']"
    by code_simp
  have c: "row_values
              (get_comparator_data ?b
                 (if get_value_is_literal ?ov then get_comparator ?ov
                  else replace_prefix_comparator ?b (get_comparator ?ov))
                 (get_value_is_literal ?ov))
              (length [Missing, Str '''', Str ''a'', Str ''b''])
             = Inr [Missing, Str '''', Str ''a'', Str ''x'']"
    by code_simp
  have e: "DataframeType_equal_to ?b ?ov = Inr [False, False, True, False]"
    by code_simp
  show ?thesis
    using equal_to_rows [OF t c] e by simp
qed

text \<open>
  Claim C6, as amended. \<^verbatim>\<open>get_comparator_data\<close> returns a list comparator itself when
  \<^verbatim>\<open>value_is_literal\<close> is set, and also when it is not set and some item of the list names
  no column of the table. When \<^verbatim>\<open>value_is_literal\<close> is not set and every item of the list
  names a column, \<^verbatim>\<open>self.value.get\<close> finds these columns and their data is returned
  instead of the list.
\<close>

theorem get_comparator_data_list:
  "(lit \<longrightarrow> get_comparator_data self (ListOf vs) lit = Literal (ListOf vs))
   \<and> (\<not> list_all (is_column (df_value self)) vs \<longrightarrow>
        get_comparator_data self (ListOf vs) lit = Literal (ListOf vs))
   \<and> (\<not> lit \<and> list_all (is_column (df_value self)) vs \<longrightarrow>
        get_comparator_data self (ListOf vs) lit
          = FrameData (map (\<lambda>k. (name_of k, map (\<lambda>r. r (name_of k)) (rows (df_value self)))) vs))"
  by (simp add: get_comparator_data_def frame_get_def)

theorem get_comparator_data_list_witness:
  "get_comparator_data (bundle_of [(''A'', [Num 1])]) (ListOf [Str ''A'']) True
     = Literal (ListOf [Str ''A''])
   \<and> get_comparator_data (bundle_of [(''A'', [Num 1])]) (ListOf [Str ''MILD'', Str ''A'']) False
     = Literal (ListOf [Str ''MILD'', Str ''A''])"
proof -
  have e: "\<not> list_all (is_column (df_value (bundle_of [(''A'', [Num 1])]))) [Str ''MILD'', Str ''A'']"
    by code_simp
  show ?thesis
    using get_comparator_data_list [of True "bundle_of [(''A'', [Num 1])]" "[Str ''A'']"]
      get_comparator_data_list [of False "bundle_of [(''A'', [Num 1])]" "[Str ''MILD'', Str ''A'']"] e
    by simp
qed

text \<open>
  The claim as it was stated fails for the table with the one column \<^verbatim>\<open>A\<close> and the list
  comparator \<^verbatim>\<open>["A"]\<close> without \<^verbatim>\<open>value_is_literal\<close>: the data of column \<^verbatim>\<open>A\<close> is returned.
\<close>

theorem get_comparator_data_list_counterexample:
  "get_comparator_data (bundle_of [(''A'', [Num 1])]) (ListOf [Str ''A'']) False
     = FrameData [(''A'', [Num 1])]
   \<and> get_comparator_data (bundle_of [(''A'', [Num 1])]) (ListOf [Str ''A'']) False
     \<noteq> Literal (ListOf [Str ''A''])"
proof -
  have "get_comparator_data (bundle_of [(''A'', [Num 1])]) (ListOf [Str ''A'']) False
     = FrameData [(''A'', [Num 1])]"
    by code_simp
  then show ?thesis by simp
qed

text \<open>
  Claim C1. \<^verbatim>\<open>present_on_multiple_rows_within\<close> is documented as a per-row operator, whose
  result has one boolean per row of the table. For a group that is not larger than
  \<^verbatim>\<open>min_count\<close>, \<^verbatim>\<open>validate_series_length\<close> returns \<^verbatim>\<open>min_length\<close> booleans instead of one per
  row of the group: on the table of one row below, with \<^verbatim>\<open>comparator = 2\<close>, the result has
  two elements.
\<close>

theorem present_on_multiple_rows_within_length:
  "DataframeType_present_on_multiple_rows_within
     (bundle_of [(''g'', [Str ''a'']), (''t'', [Str ''x''])])
     ((args ''t'' (Scalar (Num 2)))\<lparr>get_within := Str ''g''\<rparr>) = Inr [False, False]
   \<and> length (rows (df_value (bundle_of [(''g'', [Str ''a'']), (''t'', [Str ''x''])]))) = 1"
  by code_simp


section \<open>Grouped and ordered tables\<close>







text \<open>
  Claim C9, as amended. \<^verbatim>\<open>is_ordered_set\<close> and \<^verbatim>\<open>is_not_ordered_set\<close> raise
  \<^verbatim>\<open>Exception('Comparator must be a single String value')\<close> if and only if the comparator
  is a list. With a comparator that is one string they return a boolean, each the
  negation of the other, when the string names a column of the table, the target names
  another column, and the cells of the target column are all numbers or all strings.
\<close>

theorem is_ordered_set_raises:
  "(raises_Exception (DataframeType_is_ordered_set self ov) \<longleftrightarrow> is_ListOf (get_comparator ov))
   \<and> (raises_Exception (DataframeType_is_not_ordered_set self ov) \<longleftrightarrow> is_ListOf (get_comparator ov))
   \<and> (is_ListOf (get_comparator ov) \<longrightarrow>
        DataframeType_is_ordered_set self ov = Inl (Exception ''Comparator must be a single String value'')
      \<and> DataframeType_is_not_ordered_set self ov = Inl (Exception ''Comparator must be a single String value''))
   \<and> (get_comparator ov = Scalar (Str k) \<and> k \<in> set (columns (df_value self))
        \<and> getitem (df_value self) (replace_prefix self (get_target ov)) = Inr target_column
        \<and> replace_prefix self (get_target ov) \<noteq> Str k
        \<and> comparable target_column \<longrightarrow>
        (\<exists>b. DataframeType_is_ordered_set self ov = Inr b
            \<and> DataframeType_is_not_ordered_set self ov = Inr (\<not> b)))"
proof (intro conjI impI)
  show "raises_Exception (DataframeType_is_ordered_set self ov) \<longleftrightarrow> is_ListOf (get_comparator ov)"
    by (rule ordered_set_raises)
  show "raises_Exception (DataframeType_is_not_ordered_set self ov) \<longleftrightarrow> is_ListOf (get_comparator ov)"
    by (rule not_ordered_set_raises)
next
  assume "is_ListOf (get_comparator ov)"
  then show "DataframeType_is_ordered_set self ov = Inl (Exception ''Comparator must be a single String value'')"
    "DataframeType_is_not_ordered_set self ov = Inl (Exception ''Comparator must be a single String value'')"
    by (cases "get_comparator ov"; simp add: DataframeType_is_ordered_set_def
        DataframeType_is_not_ordered_set_def Let_def)+
next
  assume a: "get_comparator ov = Scalar (Str k) \<and> k \<in> set (columns (df_value self))
        \<and> getitem (df_value self) (replace_prefix self (get_target ov)) = Inr target_column
        \<and> replace_prefix self (get_target ov) \<noteq> Str k
        \<and> comparable target_column"
  then show "\<exists>b. DataframeType_is_ordered_set self ov = Inr b
            \<and> DataframeType_is_not_ordered_set self ov = Inr (\<not> b)"
    using sorted_groups_returns [of k "df_value self" "replace_prefix self (get_target ov)" target_column]
    by (auto simp: DataframeType_is_ordered_set_def DataframeType_is_not_ordered_set_def Let_def)
qed

theorem is_ordered_set_raises_witness:
  "DataframeType_is_ordered_set
     (bundle_of [(''g'', [Str ''a'', Str ''b'', Str ''a'']), (''t'', [Num 1, Num 5, Num 2])])
     (args ''t'' (ListOf [Str ''g'']))
     = Inl (Exception ''Comparator must be a single String value'')
   \<and> DataframeType_is_not_ordered_set
     (bundle_of [(''g'', [Str ''a'', Str ''b'', Str ''a'']), (''t'', [Num 1, Num 5, Num 2])])
     (args ''t'' (ListOf [Str ''g'']))
     = Inl (Exception ''Comparator must be a single String value'')
   \<and> DataframeType_is_ordered_set
     (bundle_of [(''g'', [Str ''a'', Str ''b'', Str ''a'']), (''t'', [Num 1, Num 5, Num 2])])
     (args ''t'' (Scalar (Str ''g''))) = Inr True
   \<and> DataframeType_is_not_ordered_set
     (bundle_of [(''g'', [Str ''a'', Str ''b'', Str ''a'']), (''t'', [Num 1, Num 5, Num 2])])
     (args ''t'' (Scalar (Str ''g''))) = Inr False"
proof -
  let ?b = "bundle_of [(''g'', [Str ''a'', Str ''b'', Str ''a'']), (''t'', [Num 1, Num 5, Num 2])]"
  have l: "is_ListOf (get_comparator (args ''t'' (ListOf [Str ''g''])))"
    by code_simp
  have h: "get_comparator (args ''t'' (Scalar (Str ''g''))) = Scalar (Str ''g'')
         \<and> ''g'' \<in> set (columns (df_value ?b))
         \<and> getitem (df_value ?b) (replace_prefix ?b (get_target (args ''t'' (Scalar (Str ''g'')))))
             = Inr [Num 1, Num 5, Num 2]
         \<and> replace_prefix ?b (get_target (args ''t'' (Scalar (Str ''g'')))) \<noteq> Str ''g''
         \<and> comparable [Num 1, Num 5, Num 2]"
    by code_simp
  have e: "DataframeType_is_ordered_set ?b (args ''t'' (Scalar (Str ''g''))) = Inr True"
    by code_simp
  have "\<exists>b. DataframeType_is_ordered_set ?b (args ''t'' (Scalar (Str ''g''))) = Inr b
          \<and> DataframeType_is_not_ordered_set ?b (args ''t'' (Scalar (Str ''g''))) = Inr (\<not> b)"
    using is_ordered_set_raises [of ?b "args ''t'' (Scalar (Str ''g''))" "''g''" "[Num 1, Num 5, Num 2]"] h
    by blast
  with e have n: "DataframeType_is_not_ordered_set ?b (args ''t'' (Scalar (Str ''g''))) = Inr False"
    by auto
  show ?thesis
    using is_ordered_set_raises [of ?b "args ''t'' (ListOf [Str ''g''])" "''g''" "[]"] l e n
    by simp
qed

text \<open>
  The claim as it was stated fails for a comparator that is one string and names no
  column of the table: \<^verbatim>\<open>groupby\<close> raises \<^verbatim>\<open>KeyError\<close>, and no result is returned.
\<close>

theorem is_ordered_set_raises_counterexample:
  "DataframeType_is_ordered_set (bundle_of [(''A'', [Num 1])]) (args ''A'' (Scalar (Str ''B'')))
     = Inl KeyError
   \<and> DataframeType_is_not_ordered_set (bundle_of [(''A'', [Num 1])]) (args ''A'' (Scalar (Str ''B'')))
     = Inl KeyError
   \<and> \<not> is_ListOf (get_comparator (args ''A'' (Scalar (Str ''B''))))"
  by code_simp

section \<open>What a call leaves behind\<close>





end

